theory Spec2Isabelle
  imports Complex_Main
begin

section \<open>Exceptions and tables\<close>

text \<open>
  The log viewer \<open>plot_logs.py\<close> reads a growing comma-separated log, resolves the
  columns to draw and rescales the axes. Every exception the code can meet on the paths
  modelled here is a value of \<open>error\<close>; a function that can raise returns
  \<open>error + 'a\<close>, with \<open>Inl\<close> for the exception.
\<close>

datatype error =
    EmptyDataError
  | FileNotFoundError
  | ParserError
  | ValueError
  | IndexError
  | KeyError
  | AttributeError
  | AssertionError

text \<open>
  A cell of a table is a number or a text that did not parse as one. Numbers are exact
  reals: rounding of the machine's floating point is not modelled.
\<close>

datatype cell = Num real | Str string

text \<open>
  A data frame: the column names in order, the row labels, and the rows. The row labels
  matter because \<open>tail\<close> keeps them and \<open>reset_index\<close> turns them into a column.
\<close>

record dataframe =
  columns :: "string list"
  index :: "int list"
  rows :: "cell list list"

type_synonym path = string
type_synonym filesystem = "path \<Rightarrow> string option"
type_synonym parser = "string \<Rightarrow> error + dataframe"

section \<open>Python's string and list primitives\<close>

definition py_isspace :: "char \<Rightarrow> bool" where
  "py_isspace c = (c \<in> set [CHR 0x09, CHR 0x0A, CHR 0x0B, CHR 0x0C, CHR 0x0D,
      CHR 0x1C, CHR 0x1D, CHR 0x1E, CHR 0x1F, CHR 0x20, CHR 0x85, CHR 0xA0])"

definition py_strip :: "string \<Rightarrow> string" where
  "py_strip s = rev (dropWhile py_isspace (rev (dropWhile py_isspace s)))"

definition is_digit :: "char \<Rightarrow> bool" where
  "is_digit c = (c \<in> set ''0123456789'')"

definition digit_val :: "char \<Rightarrow> nat" where
  "digit_val c = of_char c - 48"

text \<open>
  \<open>int(s)\<close> on a string: surrounding whitespace is dropped, one sign is allowed, and
  the rest is decimal digits with single underscores between digits. Anything else is a
  \<open>ValueError\<close>, and so is a numeral of more than 4300 digits, the interpreter's default
  limit. The whitespace \<open>int\<close> drops is narrower than that of \<open>strip\<close>: the four
  separators \<open>0x1C\<close> to \<open>0x1F\<close> are not part of it. Characters are code points below
  256.
\<close>

definition int_space :: "char \<Rightarrow> bool" where
  "int_space c = (c \<in> set [CHR 0x09, CHR 0x0A, CHR 0x0B, CHR 0x0C, CHR 0x0D,
      CHR 0x20, CHR 0x85, CHR 0xA0])"

definition int_strip :: "string \<Rightarrow> string" where
  "int_strip s = rev (dropWhile int_space (rev (dropWhile int_space s)))"

fun parse_digits :: "nat \<Rightarrow> string \<Rightarrow> nat option" where
  "parse_digits acc [] = Some acc"
| "parse_digits acc (c # cs) =
     (if is_digit c then parse_digits (10 * acc + digit_val c) cs
      else if c = CHR ''_'' then
        (case cs of
           [] \<Rightarrow> None
         | d # ds \<Rightarrow> if is_digit d then parse_digits (10 * acc + digit_val d) ds else None)
      else None)"

definition parse_nat :: "string \<Rightarrow> nat option" where
  "parse_nat s =
     (case s of
        [] \<Rightarrow> None
      | c # cs \<Rightarrow> if is_digit c then parse_digits (digit_val c) cs else None)"

definition py_int :: "string \<Rightarrow> error + int" where
  "py_int s =
     (let t = int_strip s;
          neg = (case t of [] \<Rightarrow> False | c # _ \<Rightarrow> c = CHR ''-'');
          body = (case t of [] \<Rightarrow> [] | c # cs \<Rightarrow> if c = CHR ''-'' \<or> c = CHR ''+'' then cs else t)
      in if 4300 < length (filter is_digit body) then Inl ValueError
         else
           (case parse_nat body of
              None \<Rightarrow> Inl ValueError
            | Some n \<Rightarrow> Inr (if neg then - int n else int n)))"

text \<open>
  \<open>xs[i]\<close> with an integer: a negative index counts from the end, an index out of
  range raises \<open>IndexError\<close>.
\<close>

definition getitem :: "'a list \<Rightarrow> int \<Rightarrow> error + 'a" where
  "getitem xs i =
     (if 0 \<le> i \<and> i < int (length xs) then Inr (xs ! nat i)
      else if i < 0 \<and> - int (length xs) \<le> i then Inr (xs ! nat (int (length xs) + i))
      else Inl IndexError)"

text \<open>
  \<open>tail(n)\<close> of the table library: nothing for \<open>n = 0\<close>, the last \<open>n\<close> entries for a
  positive \<open>n\<close>, and all but the first \<open>-n\<close> for a negative one (the slice \<open>[-n:]\<close>).
\<close>

definition py_tail :: "int \<Rightarrow> 'a list \<Rightarrow> 'a list" where
  "py_tail n xs =
     (if n = 0 then []
      else if 0 < n then drop (length xs - nat n) xs
      else drop (nat (- n)) xs)"

definition tail :: "dataframe \<Rightarrow> int \<Rightarrow> dataframe" where
  "tail d n = d\<lparr>index := py_tail n (index d), rows := py_tail n (rows d)\<rparr>"

section \<open>The log reader\<close>

text \<open>
  \<open>pd.read_csv\<close> belongs to the table library. The reader's code is written against two
  of its outcomes, which the model fixes: a path with no file raises
  \<open>FileNotFoundError\<close>, and a file of zero bytes raises \<open>EmptyDataError\<close>. The parsing
  of any other text is a parameter.
\<close>

definition read_csv :: "filesystem \<Rightarrow> parser \<Rightarrow> path \<Rightarrow> error + dataframe" where
  "read_csv fs parse p =
     (case fs p of
        None \<Rightarrow> Inl FileNotFoundError
      | Some content \<Rightarrow> if content = [] then Inl EmptyDataError else parse content)"

definition rename_strip :: "dataframe \<Rightarrow> dataframe" where
  "rename_strip d = d\<lparr>columns := map py_strip (columns d)\<rparr>"

text \<open>
  \<open>read_data(path, n_max)\<close>: only \<open>EmptyDataError\<close> is caught; every other exception
  of the read leaves the function. \<open>None\<close> is the no-data sentinel.
\<close>

definition read_data :: "filesystem \<Rightarrow> parser \<Rightarrow> path \<Rightarrow> int \<Rightarrow> error + dataframe option" where
  "read_data fs parse p n_max =
     (case read_csv fs parse p of
        Inl e \<Rightarrow> if e = EmptyDataError then Inr None else Inl e
      | Inr d \<Rightarrow>
          (let data = rename_strip d
           in if length (rows data) = 0 then Inr None
              else Inr (Some (tail data n_max))))"

section \<open>The column resolver\<close>

text \<open>
  \<open>check_col(data, col, warn)\<close>. The table may be the sentinel \<open>None\<close>, on which
  \<open>data.columns\<close> raises \<open>AttributeError\<close>. The handler of the positional lookup catches
  \<open>KeyError\<close> only. The second component of the result is what was printed.
\<close>

definition check_col :: "dataframe option \<Rightarrow> string \<Rightarrow> bool \<Rightarrow> error + (string option \<times> string list)" where
  "check_col data col warn =
     (case data of
        None \<Rightarrow> Inl AttributeError
      | Some d \<Rightarrow>
          if col \<in> set (columns d) then Inr (Some col, [])
          else
            (case (case py_int col of Inl e \<Rightarrow> Inl e | Inr i \<Rightarrow> getitem (columns d) i) of
               Inr c \<Rightarrow> Inr (Some c, [])
             | Inl e \<Rightarrow>
                 if e = KeyError
                 then Inr (None, if warn then [''Warning: Cannot find column '' @ col] else [])
                 else Inl e))"

text \<open>The comprehension \<open>[check_col(data, col, warn) for col in cols]\<close>, left to right.\<close>

fun check_cols :: "dataframe option \<Rightarrow> string list \<Rightarrow> bool \<Rightarrow> error + (string option list \<times> string list)" where
  "check_cols data [] warn = Inr ([], [])"
| "check_cols data (c # cs) warn =
     (case check_col data c warn of
        Inl e \<Rightarrow> Inl e
      | Inr (r, out) \<Rightarrow>
          (case check_cols data cs warn of
             Inl e \<Rightarrow> Inl e
           | Inr (rs, out') \<Rightarrow> Inr (r # rs, out @ out')))"

text \<open>
  One selector list of \<open>organize_cols\<close>: absent stays absent; otherwise every selector is
  checked, the unresolved ones are dropped, and an empty result becomes absent.
\<close>

definition select_cols :: "dataframe option \<Rightarrow> string list option \<Rightarrow> bool \<Rightarrow> error + (string list option \<times> string list)" where
  "select_cols data cols warn =
     (case cols of
        None \<Rightarrow> Inr (None, [])
      | Some cs \<Rightarrow>
          (case check_cols data cs warn of
             Inl e \<Rightarrow> Inl e
           | Inr (rs, out) \<Rightarrow>
               (let kept = [c. Some c \<leftarrow> rs]
                in Inr (if length kept > 0 then Some kept else None, out))))"

text \<open>
  \<open>zip(cycle(xs), ys)\<close>: \<open>cycle\<close> hands out the elements of \<open>xs\<close> and starts over from its
  saved copy when they run out; with nothing saved it stops. \<open>zip\<close> stops with the first
  iterator that does.
\<close>

fun zip_cycle_from :: "'a list \<Rightarrow> 'a list \<Rightarrow> 'b list \<Rightarrow> ('a \<times> 'b) list" where
  "zip_cycle_from saved rest [] = []"
| "zip_cycle_from saved (r # rest) (y # ys) = (r, y) # zip_cycle_from saved rest ys"
| "zip_cycle_from saved [] (y # ys) =
     (case saved of
        [] \<Rightarrow> []
      | s # ss \<Rightarrow> (s, y) # zip_cycle_from saved ss ys)"

definition zip_cycle :: "'a list \<Rightarrow> 'b list \<Rightarrow> ('a \<times> 'b) list" where
  "zip_cycle xs ys = zip_cycle_from xs xs ys"

text \<open>
  \<open>reset_index(names="_index")\<close>: the row labels become the first column, named
  \<open>_index\<close>, and the rows are relabelled from 0. A column of that name already in the
  table makes the insertion raise \<open>ValueError\<close>.
\<close>

definition reset_index :: "dataframe \<Rightarrow> error + dataframe" where
  "reset_index d =
     (if ''_index'' \<in> set (columns d) then Inl ValueError
      else Inr \<lparr>columns = ''_index'' # columns d,
                index = map int [0..<length (rows d)],
                rows = map2 (\<lambda>i r. Num (of_int i) # r) (index d) (rows d)\<rparr>)"

text \<open>
  The first part of \<open>organize_cols\<close>, up to the assertion: both selector lists resolved,
  the count check, and the defaults. The count check discards the x selectors only
  under \<open>warn\<close>, as the condition of the source has it.
\<close>

definition resolve_cols :: "dataframe option \<Rightarrow> string list option \<Rightarrow> string list option \<Rightarrow> bool
    \<Rightarrow> error + ((string list \<times> string list) \<times> string list)" where
  "resolve_cols data x_cols y_cols warn =
     (case select_cols data x_cols warn of
        Inl e \<Rightarrow> Inl e
      | Inr (xs, out1) \<Rightarrow>
     (case select_cols data y_cols warn of
        Inl e \<Rightarrow> Inl e
      | Inr (ys, out2) \<Rightarrow>
     (let discard =
            (case (xs, ys) of
               (Some x, Some y) \<Rightarrow> (length x \<noteq> length y \<and> length x > 1) \<and> warn
             | _ \<Rightarrow> False);
          out3 = (if discard
                  then [''Warning: Number of x-cols must match the number of y-cols.'',
                        ''Warning: Ignoring x-cols.'']
                  else []);
          xs' = (if discard then None else xs);
          x = (case xs' of None \<Rightarrow> [''_index''] | Some x \<Rightarrow> x)
      in case ys of
           Some y \<Rightarrow> Inr ((x, y), out1 @ out2 @ out3)
         | None \<Rightarrow>
             (case data of
                None \<Rightarrow> Inl AttributeError
              | Some d \<Rightarrow> Inr ((x, columns d), out1 @ out2 @ out3)))))"

text \<open>
  \<open>organize_cols(data, x_cols, y_cols, warn)\<close>: the resolved lists, the assertion, the
  pairing and the index column. The result is the table, the column pairs and the
  printed lines.
\<close>

definition organize_cols :: "dataframe option \<Rightarrow> string list option \<Rightarrow> string list option \<Rightarrow> bool
    \<Rightarrow> error + ((dataframe \<times> (string \<times> string) list) \<times> string list)" where
  "organize_cols data x_cols y_cols warn =
     (case resolve_cols data x_cols y_cols warn of
        Inl e \<Rightarrow> Inl e
      | Inr ((x, y), out) \<Rightarrow>
          if \<not> length x \<le> length y then Inl AssertionError
          else
            (let col_pairs = zip_cycle x y
             in case data of
                  None \<Rightarrow> Inl AttributeError
                | Some d \<Rightarrow>
                    (case reset_index d of
                       Inl e \<Rightarrow> Inl e
                     | Inr d' \<Rightarrow> Inr ((d', col_pairs), out))))"

section \<open>The renderer's update step\<close>

text \<open>
  The bounding box starts at \<open>inf\<close> and \<open>-inf\<close>, and a division by a zero span
  yields an infinity or a not-a-number rather than an exception, so the values of the
  update step are reals extended by these three. Finite values are exact reals: the
  model gives what one pass computes where the machine's floating point computes it
  without rounding, and says nothing on how many passes the rounded limits take to
  come to rest.
\<close>

datatype xreal = Fin real | PInf | MInf | NaN

fun is_finite :: "xreal \<Rightarrow> bool" where
  "is_finite (Fin _) = True"
| "is_finite _ = False"

text \<open>The comparison \<open>a < b\<close>: false whenever one side is not a number.\<close>

fun xlt :: "xreal \<Rightarrow> xreal \<Rightarrow> bool" where
  "xlt NaN _ = False"
| "xlt _ NaN = False"
| "xlt (Fin a) (Fin b) = (a < b)"
| "xlt _ MInf = False"
| "xlt MInf _ = True"
| "xlt PInf _ = False"
| "xlt (Fin _) PInf = True"

fun xsub :: "xreal \<Rightarrow> xreal \<Rightarrow> xreal" where
  "xsub NaN _ = NaN"
| "xsub _ NaN = NaN"
| "xsub (Fin a) (Fin b) = Fin (a - b)"
| "xsub PInf PInf = NaN"
| "xsub MInf MInf = NaN"
| "xsub PInf _ = PInf"
| "xsub MInf _ = MInf"
| "xsub (Fin _) PInf = MInf"
| "xsub (Fin _) MInf = PInf"

text \<open>
  A finite numerator divided by a span: by zero it is an infinity of the numerator's
  sign, or not a number when the numerator is zero too; by an infinity it is zero.
\<close>

fun fdiv :: "real \<Rightarrow> xreal \<Rightarrow> xreal" where
  "fdiv n (Fin d) =
     (if d = 0 then (if n = 0 then NaN else if 0 < n then PInf else MInf)
      else Fin (n / d))"
| "fdiv n PInf = Fin 0"
| "fdiv n MInf = Fin 0"
| "fdiv n NaN = NaN"

text \<open>
  The builtins \<open>min(a, b)\<close> and \<open>max(a, b)\<close> keep the first argument unless the second
  is strictly smaller (larger).
\<close>

definition py_min :: "xreal \<Rightarrow> xreal \<Rightarrow> xreal" where
  "py_min a b = (if xlt b a then b else a)"

definition py_max :: "xreal \<Rightarrow> xreal \<Rightarrow> xreal" where
  "py_max a b = (if xlt a b then b else a)"

text \<open>The minimum and maximum of a numeric column; not a number for an empty one.\<close>

definition col_min :: "real list \<Rightarrow> xreal" where
  "col_min vs = (case vs of [] \<Rightarrow> NaN | v # ws \<Rightarrow> Fin (fold min ws v))"

definition col_max :: "real list \<Rightarrow> xreal" where
  "col_max vs = (case vs of [] \<Rightarrow> NaN | v # ws \<Rightarrow> Fin (fold max ws v))"

text \<open>
  \<open>data[col]\<close>: a missing name raises \<open>KeyError\<close>; a name carried by several columns
  selects a sub-table, which has no \<open>dtype\<close>. Rows are as long as the header.
\<close>

datatype selection = Series "cell list" | Frame

definition getcol :: "dataframe \<Rightarrow> string \<Rightarrow> error + selection" where
  "getcol d c =
     (case filter (\<lambda>i. columns d ! i = c) [0..<length (columns d)] of
        [] \<Rightarrow> Inl KeyError
      | [i] \<Rightarrow> Inr (Series (map (\<lambda>r. r ! i) (rows d)))
      | _ \<Rightarrow> Inr Frame)"

fun is_text :: "cell \<Rightarrow> bool" where
  "is_text (Str _) = True"
| "is_text (Num _) = False"

definition is_object :: "cell list \<Rightarrow> bool" where
  "is_object cs = list_ex is_text cs"

definition nums :: "cell list \<Rightarrow> real list" where
  "nums cs = [v. Num v \<leftarrow> cs]"

record artist =
  xdata :: "real list"
  ydata :: "real list"

type_synonym handle_dict = "(string \<times> artist) list"

record figure =
  xlim :: "real \<times> real"
  ylim :: "real \<times> real"
  handles :: handle_dict

record bounds =
  x_min :: xreal
  x_max :: xreal
  y_min :: xreal
  y_max :: xreal

record configs =
  path_to_logs :: path
  max_samples :: int
  rescale_speed :: real
  lim_margin :: real
  x_cols :: "string list option"
  y_cols :: "string list option"

definition get_label :: "string \<Rightarrow> string \<Rightarrow> string" where
  "get_label x_col y_col = (if x_col = ''_index'' then y_col else x_col @ '' vs. '' @ y_col)"

definition set_data :: "string \<Rightarrow> real list \<Rightarrow> real list \<Rightarrow> handle_dict \<Rightarrow> handle_dict" where
  "set_data key xs ys hs =
     map (\<lambda>(k, a). if k = key then (k, a\<lparr>xdata := xs, ydata := ys\<rparr>) else (k, a)) hs"

text \<open>
  The loop of \<open>plot_update\<close> over the column pairs: a pair with a text column is
  skipped; otherwise the line and its last-point marker get the new data and the
  bounding box grows.
\<close>

fun update_series :: "dataframe \<Rightarrow> (string \<times> string) list \<Rightarrow> handle_dict \<times> bounds
    \<Rightarrow> error + handle_dict \<times> bounds" where
  "update_series d [] st = Inr st"
| "update_series d ((x_col, y_col) # ps) (hs, b) =
     (let label = get_label x_col y_col
      in case getcol d x_col of
           Inl e \<Rightarrow> Inl e
         | Inr x \<Rightarrow>
        (case getcol d y_col of
           Inl e \<Rightarrow> Inl e
         | Inr y \<Rightarrow>
        (case x of
           Frame \<Rightarrow> Inl AttributeError
         | Series xs \<Rightarrow>
             if is_object xs then update_series d ps (hs, b)
             else
               (case y of
                  Frame \<Rightarrow> Inl AttributeError
                | Series ys \<Rightarrow>
                    if is_object ys then update_series d ps (hs, b)
                    else if map_of hs label = None then Inl KeyError
                    else if map_of hs (label @ ''_point'') = None then Inl KeyError
                    else
                      (let xv = nums xs; yv = nums ys;
                           hs1 = set_data label xv yv hs;
                           hs2 = set_data (label @ ''_point'')
                                   (drop (length xv - 1) xv) (drop (length yv - 1) yv) hs1;
                           b' = \<lparr>x_min = py_min (x_min b) (col_min xv),
                                 x_max = py_max (x_max b) (col_max xv),
                                 y_min = py_min (y_min b) (col_min yv),
                                 y_max = py_max (y_max b) (col_max yv)\<rparr>
                       in update_series d ps (hs2, b'))))))"

text \<open>
  The test of the source on one relative discrepancy pair,
  \<open>(low_rel > 0.2 or low_rel < 0) or (high_rel > 0.2 or high_rel < 0)\<close>.
\<close>

definition out_of_band :: "xreal \<Rightarrow> xreal \<Rightarrow> bool" where
  "out_of_band low_rel high_rel =
     ((xlt (Fin 0.2) low_rel \<or> xlt low_rel (Fin 0)) \<or> (xlt (Fin 0.2) high_rel \<or> xlt high_rel (Fin 0)))"

text \<open>
  One of the two rescaling blocks of \<open>plot_update\<close>: \<open>lo\<close> and \<open>hi\<close> are the data
  bounds of the axis, \<open>denom\<close> is the span the discrepancies are divided by, and
  \<open>(lo_cur, hi_cur)\<close> are the visible limits. The margin is taken from the axis's own
  span \<open>hi - lo\<close>.
\<close>

definition rescale_axis :: "real \<Rightarrow> xreal \<Rightarrow> xreal \<Rightarrow> xreal \<Rightarrow> real \<times> real \<Rightarrow> real \<times> real" where
  "rescale_axis margin lo hi denom cur =
     (case (lo, hi) of
        (Fin l, Fin h) \<Rightarrow>
          (let lo_cur = fst cur; hi_cur = snd cur;
               lo_target = l - (h - l) * margin;
               hi_target = h + (h - l) * margin;
               low_rel = fdiv (lo_target - lo_cur) denom;
               high_rel = fdiv (hi_cur - hi_target) denom
           in if out_of_band low_rel high_rel
              then (lo_cur + (lo_target - lo_cur) * 0.9, hi_cur + (hi_target - hi_cur) * 0.9)
              else cur)
      | _ \<Rightarrow> cur)"

text \<open>
  The limits after the two blocks. In the source both blocks divide by \<open>dx\<close>, the span
  of the x data; the y block comes first.
\<close>

definition rescale_limits :: "real \<Rightarrow> bounds \<Rightarrow> (real \<times> real) \<times> (real \<times> real) \<Rightarrow> (real \<times> real) \<times> (real \<times> real)" where
  "rescale_limits margin b lims =
     (let dx = xsub (x_max b) (x_min b);
          ylim' = rescale_axis margin (y_min b) (y_max b) dx (snd lims);
          xlim' = rescale_axis margin (x_min b) (x_max b) dx (fst lims)
      in (xlim', ylim'))"

definition empty_bounds :: bounds where
  "empty_bounds = \<lparr>x_min = PInf, x_max = MInf, y_min = PInf, y_max = MInf\<rparr>"

text \<open>\<open>plot_update(ax, handles, data, col_pairs, configs)\<close>; without data nothing changes.\<close>

definition plot_update :: "figure \<Rightarrow> dataframe option \<Rightarrow> (string \<times> string) list \<Rightarrow> configs \<Rightarrow> error + figure" where
  "plot_update fig data col_pairs cfg =
     (case data of
        None \<Rightarrow> Inr fig
      | Some d \<Rightarrow>
          (case update_series d col_pairs (handles fig, empty_bounds) of
             Inl e \<Rightarrow> Inl e
           | Inr (hs, b) \<Rightarrow>
               (let lims = rescale_limits (lim_margin cfg) b (xlim fig, ylim fig)
                in Inr (fig\<lparr>xlim := fst lims, ylim := snd lims, handles := hs\<rparr>))))"

section \<open>The streaming loop\<close>

text \<open>
  One pass of the \<open>while True\<close> loop of \<open>run\<close>: read, resolve the columns without
  warnings, update the plot.
\<close>

definition stream_cycle :: "filesystem \<Rightarrow> parser \<Rightarrow> configs \<Rightarrow> figure \<Rightarrow> error + figure" where
  "stream_cycle fs parse cfg fig =
     (case read_data fs parse (path_to_logs cfg) (max_samples cfg) of
        Inl e \<Rightarrow> Inl e
      | Inr data \<Rightarrow>
          (case organize_cols data (x_cols cfg) (y_cols cfg) False of
             Inl e \<Rightarrow> Inl e
           | Inr ((d, col_pairs), out) \<Rightarrow> plot_update fig (Some d) col_pairs cfg))"

text \<open>
  The loop over the successive contents of the file system, one per pass, for as long
  as the window stays open; an exception ends it.
\<close>

fun stream :: "filesystem list \<Rightarrow> parser \<Rightarrow> configs \<Rightarrow> figure \<Rightarrow> error + figure" where
  "stream [] parse cfg fig = Inr fig"
| "stream (fs # rest) parse cfg fig =
     (case stream_cycle fs parse cfg fig of
        Inl e \<Rightarrow> Inl e
      | Inr fig' \<Rightarrow> stream rest parse cfg fig')"


section \<open>A plain parser for the log format\<close>

text \<open>
  The lines of a text, blank lines skipped, and the fields of its header line as they
  stand between the commas.
\<close>

fun split_on :: "char \<Rightarrow> string \<Rightarrow> string list" where
  "split_on c [] = [[]]"
| "split_on c (x # xs) =
     (if x = c then [] # split_on c xs
      else (case split_on c xs of
              [] \<Rightarrow> [[x]]
            | h # t \<Rightarrow> (x # h) # t))"

definition log_lines :: "string \<Rightarrow> string list" where
  "log_lines content = filter (\<lambda>l. l \<noteq> []) (split_on CHR 0x0A content)"


text \<open>
  For running the reader on concrete text, the parser on the plain form of the log
  format: printable ASCII without quotes; a header of distinct, non-empty names; rows
  with as many fields as the header, each field a decimal numeral of at most 18
  characters, with an optional minus sign and an optional fraction and nothing around
  it. There the table library returns the header names as written and the numerals as
  numbers, and a text without any line is its \<open>EmptyDataError\<close>. What the library does
  outside this form (quoting, repeated or empty names, short and long rows, other
  spellings of numbers) is not modelled: there \<open>plain_csv\<close> is left unspecified.
\<close>

definition digits_val :: "string \<Rightarrow> nat" where
  "digits_val s = foldl (\<lambda>a c. 10 * a + digit_val c) 0 s"

definition all_digits :: "string \<Rightarrow> bool" where
  "all_digits s = (s \<noteq> [] \<and> list_all is_digit s)"

definition parse_decimal :: "string \<Rightarrow> real option" where
  "parse_decimal s =
     (case split_on CHR ''.'' s of
        [w] \<Rightarrow> if all_digits w then Some (of_nat (digits_val w)) else None
      | [w, f] \<Rightarrow>
          if all_digits w \<and> all_digits f
          then Some (of_nat (digits_val w) + of_nat (digits_val f) / 10 ^ length f)
          else None
      | _ \<Rightarrow> None)"

definition number_of :: "string \<Rightarrow> real option" where
  "number_of s =
     (if 18 < length s then None
      else case s of
             [] \<Rightarrow> None
           | c # cs \<Rightarrow>
               if c = CHR ''-'' then map_option uminus (parse_decimal cs)
               else parse_decimal s)"

definition parse_cell :: "string \<Rightarrow> cell" where
  "parse_cell s = (case number_of s of None \<Rightarrow> Str s | Some v \<Rightarrow> Num v)"

definition plain_char :: "char \<Rightarrow> bool" where
  "plain_char c = (32 \<le> (of_char c :: nat) \<and> (of_char c :: nat) \<le> 126 \<and> c \<noteq> CHR 0x22)"

definition plain_row :: "nat \<Rightarrow> string \<Rightarrow> bool" where
  "plain_row k l =
     (length (split_on CHR '','' l) = k
      \<and> list_all (\<lambda>f. number_of f \<noteq> None) (split_on CHR '','' l))"

definition plain_log :: "string \<Rightarrow> bool" where
  "plain_log content =
     (case log_lines content of
        [] \<Rightarrow> True
      | h # ls \<Rightarrow>
          list_all plain_char h
          \<and> distinct (split_on CHR '','' h)
          \<and> list_all (\<lambda>f. f \<noteq> []) (split_on CHR '','' h)
          \<and> list_all (plain_row (length (split_on CHR '','' h))) ls)"

definition plain_csv :: parser where
  "plain_csv content =
     (if plain_log content then
        (case log_lines content of
           [] \<Rightarrow> Inl EmptyDataError
         | h # ls \<Rightarrow>
             Inr \<lparr>columns = split_on CHR '','' h,
                  index = map int [0..<length ls],
                  rows = map (\<lambda>l. map parse_cell (split_on CHR '','' l)) ls\<rparr>)
      else undefined)"

section \<open>The signal source\<close>

text \<open>
  \<open>pico_demo.py\<close> prints a header once and then one line per tick, built with the
  \<open>%\<close> operator from a format string and the four values. A format string is a
  sequence of literal characters and conversions; a conversion has an optional minimum
  width and an optional precision. Flags and length modifiers do not occur in the
  source and are not read.
\<close>

datatype piece = Lit char | Conv "nat option" "nat option" char

text \<open>
  The scanner is in plain text, or after a \<open>%\<close> collecting the width, or after the
  dot collecting the precision; the first character that is no digit (and no dot after
  the width) is the conversion character.
\<close>

datatype mode = Plain | Width "nat option" | Precision "nat option" nat

fun scan :: "mode \<Rightarrow> string \<Rightarrow> piece list option" where
  "scan Plain [] = Some []"
| "scan Plain (c # cs) =
     (if c = CHR ''%'' then scan (Width None) cs
      else map_option ((#) (Lit c)) (scan Plain cs))"
| "scan (Width w) [] = None"
| "scan (Width w) (c # cs) =
     (if is_digit c
      then scan (Width (Some (10 * (case w of None \<Rightarrow> 0 | Some n \<Rightarrow> n) + digit_val c))) cs
      else if c = CHR ''.'' then scan (Precision w 0) cs
      else map_option ((#) (Conv w None c)) (scan Plain cs))"
| "scan (Precision w p) [] = None"
| "scan (Precision w p) (c # cs) =
     (if is_digit c then scan (Precision w (10 * p + digit_val c)) cs
      else map_option ((#) (Conv w (Some p) c)) (scan Plain cs))"

definition parse_format :: "string \<Rightarrow> piece list option" where
  "parse_format fmt = scan Plain fmt"

text \<open>
  The decimal digits of a natural number, and \<open>%f\<close> on an exact value: the value is
  rounded to the precision (6 when none is given), ties to even, and the text is
  padded with spaces on the left up to the width.
\<close>

definition digit_char :: "nat \<Rightarrow> char" where
  "digit_char n = ''0123456789'' ! n"

function show_nat :: "nat \<Rightarrow> string" where
  "show_nat n = (if n < 10 then [digit_char n] else show_nat (n div 10) @ [digit_char (n mod 10)])"
  by pat_completeness auto
termination
  by (relation "measure id") auto

definition round_half_even :: "real \<Rightarrow> int" where
  "round_half_even v =
     (let f = \<lfloor>v\<rfloor>; r = v - of_int f
      in if r < 1 / 2 then f
         else if 1 / 2 < r then f + 1
         else if even f then f else f + 1)"

definition format_f :: "nat option \<Rightarrow> nat option \<Rightarrow> real \<Rightarrow> string" where
  "format_f width precision v =
     (let p = (case precision of None \<Rightarrow> 6 | Some q \<Rightarrow> q);
          scaled = nat (round_half_even (\<bar>v\<bar> * 10 ^ p));
          whole = show_nat (scaled div 10 ^ p);
          frac = show_nat (scaled mod 10 ^ p);
          body = (if p = 0 then whole
                  else whole @ ''.'' @ replicate (p - length frac) CHR ''0'' @ frac);
          signed = (if v < 0 then CHR ''-'' # body else body);
          w = (case width of None \<Rightarrow> 0 | Some n \<Rightarrow> n)
      in replicate (w - length signed) CHR '' '' @ signed)"

text \<open>
  \<open>fmt % args\<close> for the float conversion: every conversion takes the next argument;
  too few or too many arguments, or another conversion character, raise.
\<close>

fun render :: "piece list \<Rightarrow> real list \<Rightarrow> error + string" where
  "render [] [] = Inr []"
| "render [] (a # as) = Inl ValueError"
| "render (Lit c # ps) as = (case render ps as of Inl e \<Rightarrow> Inl e | Inr s \<Rightarrow> Inr (c # s))"
| "render (Conv w p t # ps) [] = Inl ValueError"
| "render (Conv w p t # ps) (a # as) =
     (if t = CHR ''f''
      then (case render ps as of Inl e \<Rightarrow> Inl e | Inr s \<Rightarrow> Inr (format_f w p a @ s))
      else Inl ValueError)"

definition py_format :: "string \<Rightarrow> real list \<Rightarrow> error + string" where
  "py_format fmt args = (case parse_format fmt of None \<Rightarrow> Inl ValueError | Some ps \<Rightarrow> render ps args)"

definition header_line :: string where
  "header_line = ''x(t), y(t), x_s(t), y_s(t)''"

definition line_format :: string where
  "line_format = ''%3f,%.3f,%.3f,%.3f''"

definition alpha :: real where
  "alpha = 0.1"

definition smooth :: "real \<Rightarrow> real option \<Rightarrow> real" where
  "smooth v s = (case s of None \<Rightarrow> v | Some prev \<Rightarrow> alpha * v + (1 - alpha) * prev)"

text \<open>
  One tick of the demo's loop on the sample \<open>(x, y)\<close> of the curve: the two smoothed
  values are updated and the line is printed.
\<close>

definition tick :: "real \<times> real \<Rightarrow> real option \<times> real option \<Rightarrow> error + string \<times> (real option \<times> real option)" where
  "tick sample st =
     (let x = fst sample; y = snd sample;
          x_s = smooth x (fst st);
          y_s = smooth y (snd st)
      in case py_format line_format [x, y, x_s, y_s] of
           Inl e \<Rightarrow> Inl e
         | Inr line \<Rightarrow> Inr (line, (Some x_s, Some y_s)))"


section \<open>Sample inputs\<close>

definition sample_frame :: dataframe where
  "sample_frame = \<lparr>columns = [''a'', ''b'', ''c''], index = [0, 1, 2],
     rows = [[Num 1, Num 2, Num 3], [Num 2, Num 3, Num 4], [Num 3, Num 4, Num 5]]\<rparr>"

definition digit_named_frame :: dataframe where
  "digit_named_frame = \<lparr>columns = [''a'', ''0''], index = [0],
     rows = [[Num 1, Num 2]]\<rparr>"


definition header_only_log :: string where
  "header_only_log = ''a,b'' @ [CHR 0x0A]"

text \<open>
  A table of two rows whose y values span 100 while the row index spans 1, a figure
  whose x limits are on target and whose y limits are 10 units outside theirs, and the
  configuration \<open>load_configs\<close> builds when no option is given.
\<close>

definition tall_frame :: dataframe where
  "tall_frame = \<lparr>columns = [''_index'', ''v''], index = [0, 1],
     rows = [[Num 0, Num 0], [Num 1, Num 100]]\<rparr>"

definition blank_artist :: artist where
  "blank_artist = \<lparr>xdata = [], ydata = []\<rparr>"

definition tall_figure :: figure where
  "tall_figure = \<lparr>xlim = (- 0.05, 1.05), ylim = (- 15, 115),
     handles = [(''v'', blank_artist), (''v_point'', blank_artist)]\<rparr>"

definition default_configs :: configs where
  "default_configs = \<lparr>path_to_logs = ''logging/log.txt'', max_samples = 100,
     rescale_speed = 0.1, lim_margin = 0.05, x_cols = None, y_cols = None\<rparr>"

text \<open>A table one of whose columns is itself named \<open>_index\<close>.\<close>

definition index_named_frame :: dataframe where
  "index_named_frame = \<lparr>columns = [''_index'', ''b''], index = [0],
     rows = [[Num 1, Num 2]]\<rparr>"

section \<open>Properties of the primitives\<close>

lemma py_int_z: "py_int ''z'' = Inl ValueError"
  by (simp add: py_int_def int_strip_def int_space_def parse_nat_def is_digit_def)

lemma py_int_0: "py_int ''0'' = Inr 0"
  by (simp add: py_int_def int_strip_def int_space_def parse_nat_def is_digit_def digit_val_def)

lemma py_int_7: "py_int ''7'' = Inr 7"
  by (simp add: py_int_def int_strip_def int_space_def parse_nat_def is_digit_def digit_val_def)

text \<open>
  A selector that begins with the separator \<open>0x1F\<close> is no integer, although \<open>strip\<close>
  would remove the separator.
\<close>

lemma py_int_separator: "py_int [CHR 0x1F, CHR ''0''] = Inl ValueError"
  by (simp add: py_int_def int_strip_def int_space_def parse_nat_def is_digit_def)

lemma py_strip_separator: "py_strip [CHR 0x1F, CHR ''0''] = ''0''"
  by (simp add: py_strip_def py_isspace_def)

lemma log_lines_header_only: "log_lines header_only_log = [''a,b'']"
  by (simp add: log_lines_def header_only_log_def)




lemma plain_log_header_only: "plain_log header_only_log"
  by (simp add: plain_log_def log_lines_header_only plain_char_def)


lemma plain_csv_header_only:
  "plain_csv header_only_log = Inr \<lparr>columns = [''a'', ''b''], index = [], rows = []\<rparr>"
  by (simp add: plain_csv_def plain_log_header_only log_lines_header_only)


lemma header_only_log_nonempty: "header_only_log \<noteq> []"
  by (simp add: header_only_log_def)


section \<open>Properties of the column resolver\<close>

lemma check_col_None: "check_col None col warn = Inl AttributeError"
  by (simp add: check_col_def)

lemma check_cols_None: "check_cols None cs warn = Inl AttributeError \<or> cs = []"
  by (cases cs) (simp_all add: check_col_def)

lemma select_cols_None:
  "select_cols None cols warn = Inl AttributeError \<or> select_cols None cols warn = Inr (None, [])"
proof (cases cols)
  case None
  then show ?thesis by (simp add: select_cols_def)
next
  case (Some cs)
  then show ?thesis
    using check_cols_None [of cs warn] by (auto simp: select_cols_def)
qed

lemma resolve_cols_None: "resolve_cols None xs ys warn = Inl AttributeError"
  using select_cols_None [of xs warn] select_cols_None [of ys warn]
  by (auto simp: resolve_cols_def)

lemma organize_cols_None: "organize_cols None xs ys warn = Inl AttributeError"
  by (simp add: organize_cols_def resolve_cols_None)

lemma zip_cycle_from_length:
  "saved \<noteq> [] \<Longrightarrow> length (zip_cycle_from saved rest ys) = length ys"
  by (induction saved rest ys rule: zip_cycle_from.induct) (auto split: list.splits)

lemma zip_cycle_from_snd:
  "saved \<noteq> [] \<Longrightarrow> map snd (zip_cycle_from saved rest ys) = ys"
  by (induction saved rest ys rule: zip_cycle_from.induct) (auto split: list.splits)

lemma zip_cycle_from_nth:
  "saved \<noteq> [] \<Longrightarrow> k \<le> length saved \<Longrightarrow> j < length ys \<Longrightarrow>
   zip_cycle_from saved (drop k saved) ys ! j = (saved ! ((k + j) mod length saved), ys ! j)"
proof (induction ys arbitrary: k j)
  case Nil
  then show ?case by simp
next
  case (Cons y ys)
  obtain s ss where saved: "saved = s # ss"
    using Cons.prems(1) by (cases saved) auto
  show ?case
  proof (cases "k = length saved")
    case True
    then have step: "zip_cycle_from saved (drop k saved) (y # ys) = (s, y) # zip_cycle_from saved (drop 1 saved) ys"
      using saved by simp
    show ?thesis
    proof (cases j)
      case 0
      then show ?thesis using step True saved by simp
    next
      case (Suc j')
      have "zip_cycle_from saved (drop 1 saved) ys ! j' = (saved ! ((1 + j') mod length saved), ys ! j')"
        using Cons.IH [of 1 j'] Cons.prems Suc saved by simp
      moreover have "(k + j) mod length saved = (1 + j') mod length saved"
      proof -
        have "k + j = (1 + j') + length saved" using True Suc by simp
        then show ?thesis by (simp only: mod_add_self2)
      qed
      ultimately show ?thesis using step Suc by simp
    qed
  next
    case False
    then have lt: "k < length saved" using Cons.prems(2) by simp
    then have "drop k saved = saved ! k # drop (Suc k) saved"
      by (simp add: Cons_nth_drop_Suc)
    then have step: "zip_cycle_from saved (drop k saved) (y # ys) = (saved ! k, y) # zip_cycle_from saved (drop (Suc k) saved) ys"
      by simp
    show ?thesis
    proof (cases j)
      case 0
      then show ?thesis using step lt by simp
    next
      case (Suc j')
      have "zip_cycle_from saved (drop (Suc k) saved) ys ! j' = (saved ! ((Suc k + j') mod length saved), ys ! j')"
        using Cons.IH [of "Suc k" j'] Cons.prems Suc lt by simp
      then show ?thesis using step Suc by simp
    qed
  qed
qed

lemma zip_cycle_length: "xs \<noteq> [] \<Longrightarrow> length (zip_cycle xs ys) = length ys"
  by (simp add: zip_cycle_def zip_cycle_from_length)

lemma zip_cycle_snd: "xs \<noteq> [] \<Longrightarrow> map snd (zip_cycle xs ys) = ys"
  by (simp add: zip_cycle_def zip_cycle_from_snd)

lemma zip_cycle_nth:
  "xs \<noteq> [] \<Longrightarrow> j < length ys \<Longrightarrow> zip_cycle xs ys ! j = (xs ! (j mod length xs), ys ! j)"
  using zip_cycle_from_nth [of xs 0 j ys] by (simp add: zip_cycle_def)


lemma resolve_sample_index:
  "resolve_cols (Some sample_frame) None (Some [''b'', ''c'']) True = Inr (([''_index''], [''b'', ''c'']), [])"
  by (simp add: resolve_cols_def select_cols_def check_col_def sample_frame_def)

text \<open>
  Claim C10. A selector that is literally one of the table's column names resolves to
  itself: the name test of \<open>check_col\<close> comes before the positional reading, so nothing
  is printed and the integer reading of the selector is never consulted.
\<close>

theorem check_col_name_first:
  "col \<in> set (columns d) \<Longrightarrow> check_col (Some d) col warn = Inr (Some col, [])"
  by (simp add: check_col_def)

text \<open>
  In the table with columns \<open>a\<close> and \<open>0\<close>, the selector \<open>0\<close> is the second column's
  name and, read as an index, points at the first column \<open>a\<close>; it resolves to \<open>0\<close>.
\<close>

theorem check_col_name_first_witness:
  "''0'' \<in> set (columns digit_named_frame)
   \<and> check_col (Some digit_named_frame) ''0'' True = Inr (Some ''0'', [])
   \<and> py_int ''0'' = Inr 0
   \<and> getitem (columns digit_named_frame) 0 = Inr ''a''"
proof -
  have h: "''0'' \<in> set (columns digit_named_frame)"
    by (simp add: digit_named_frame_def)
  have g: "getitem (columns digit_named_frame) 0 = Inr ''a''"
    by (simp add: digit_named_frame_def getitem_def)
  show ?thesis
    using h check_col_name_first [OF h, of True] py_int_0 g by simp
qed

lemma resolve_index_named:
  "resolve_cols (Some index_named_frame) None (Some [''b'']) True = Inr (([''_index''], [''b'']), [])"
  by (simp add: resolve_cols_def select_cols_def check_col_def index_named_frame_def)

text \<open>
  Claim C8, as amended. When the resolved x list has length \<open>m \<ge> 1\<close>, the resolved y
  list has length \<open>n \<ge> m\<close> and no column of the table is already named \<open>_index\<close>, the
  resolver returns exactly \<open>n\<close> pairs, the \<open>j\<close>-th being \<open>(x[j mod m], y[j])\<close>, so
  that the second components are the y list itself, each y column once. When a column
  is already named \<open>_index\<close>, the resolver raises \<open>ValueError\<close> and returns no pairs.
\<close>

theorem organize_cols_pairs:
  assumes "resolve_cols (Some d) xsel ysel warn = Inr ((x, y), out)"
    and "1 \<le> length x" and "length x \<le> length y"
  shows "if ''_index'' \<in> set (columns d)
         then organize_cols (Some d) xsel ysel warn = Inl ValueError
         else (\<exists>d' pairs. organize_cols (Some d) xsel ysel warn = Inr ((d', pairs), out)
                \<and> length pairs = length y
                \<and> (\<forall>j < length y. pairs ! j = (x ! (j mod length x), y ! j))
                \<and> map snd pairs = y)"
proof (cases "''_index'' \<in> set (columns d)")
  case True
  then show ?thesis
    using assms(1,3) by (simp add: organize_cols_def reset_index_def)
next
  case False
  have ne: "x \<noteq> []" using assms(2) by auto
  have a: "length (zip_cycle x y) = length y" using ne by (rule zip_cycle_length)
  have b: "\<forall>j < length y. zip_cycle x y ! j = (x ! (j mod length x), y ! j)"
    using ne by (simp add: zip_cycle_nth)
  have c: "map snd (zip_cycle x y) = y" using ne by (rule zip_cycle_snd)
  have "\<exists>d'. organize_cols (Some d) xsel ysel warn = Inr ((d', zip_cycle x y), out)"
    using assms(1,3) False by (simp add: organize_cols_def reset_index_def)
  then show ?thesis using False a b c by auto
qed

text \<open>
  The example of the specification: no x selector, so x is the index column alone, and
  the y selectors \<open>b\<close> and \<open>c\<close> give the pairs \<open>(_index, b)\<close> and \<open>(_index, c)\<close>. On the
  table that has a column \<open>_index\<close> the same call with the y selector \<open>b\<close> raises.
\<close>

theorem organize_cols_pairs_witness:
  "resolve_cols (Some sample_frame) None (Some [''b'', ''c'']) True = Inr (([''_index''], [''b'', ''c'']), [])
   \<and> (\<exists>d'. organize_cols (Some sample_frame) None (Some [''b'', ''c'']) True
            = Inr ((d', [(''_index'', ''b''), (''_index'', ''c'')]), []))
   \<and> organize_cols (Some index_named_frame) None (Some [''b'']) True = Inl ValueError"
proof -
  have n: "''_index'' \<notin> set (columns sample_frame)"
    by (simp add: sample_frame_def)
  have "\<exists>d' pairs. organize_cols (Some sample_frame) None (Some [''b'', ''c'']) True
            = Inr ((d', pairs), [])
          \<and> length pairs = length [''b'', ''c'']
          \<and> (\<forall>j < length [''b'', ''c''].
                pairs ! j = ([''_index''] ! (j mod length [''_index'']), [''b'', ''c''] ! j))
          \<and> map snd pairs = [''b'', ''c'']"
    using organize_cols_pairs [OF resolve_sample_index] n by simp
  then obtain d' pairs where
    r: "organize_cols (Some sample_frame) None (Some [''b'', ''c'']) True = Inr ((d', pairs), [])"
    and l: "length pairs = 2"
    and p: "\<forall>j < 2. pairs ! j = (''_index'', [''b'', ''c''] ! j)"
    by auto
  have p0: "pairs ! 0 = (''_index'', ''b'')" using p by auto
  have p1: "pairs ! 1 = (''_index'', ''c'')" using p by auto
  have "pairs = [(''_index'', ''b''), (''_index'', ''c'')]"
    using l p0 p1 by (auto simp: list_eq_iff_nth_eq less_Suc_eq numeral_2_eq_2)
  then have w1: "\<exists>d'. organize_cols (Some sample_frame) None (Some [''b'', ''c'']) True
            = Inr ((d', [(''_index'', ''b''), (''_index'', ''c'')]), [])"
    using r by auto
  have m: "''_index'' \<in> set (columns index_named_frame)"
    by (simp add: index_named_frame_def)
  have w2: "organize_cols (Some index_named_frame) None (Some [''b'']) True = Inl ValueError"
    using organize_cols_pairs [OF resolve_index_named] m by simp
  show ?thesis using resolve_sample_index w1 w2 by simp
qed

text \<open>
  Claim C8 as stated fails on a log that has a column named \<open>_index\<close>: the resolved
  lists are \<open>[_index]\<close> and \<open>[b]\<close>, of lengths \<open>m = n = 1\<close>, and the resolver raises
  \<open>ValueError\<close> where the claim has it return the pair \<open>(_index, b)\<close>.
\<close>

theorem organize_cols_index_named:
  "resolve_cols (Some index_named_frame) None (Some [''b'']) True = Inr (([''_index''], [''b'']), [])
   \<and> organize_cols (Some index_named_frame) None (Some [''b'']) True = Inl ValueError"
proof -
  have "reset_index index_named_frame = Inl ValueError"
    by (simp add: reset_index_def index_named_frame_def)
  then have "organize_cols (Some index_named_frame) None (Some [''b'']) True = Inl ValueError"
    by (simp add: organize_cols_def resolve_index_named)
  then show ?thesis using resolve_index_named by simp
qed

text \<open>
  Claim C2 says that a selector which is neither a column name nor a valid index is
  dropped with a warning and that the resolver never raises. On the table with columns
  \<open>a\<close>, \<open>b\<close>, \<open>c\<close> and the y selectors \<open>b\<close>, \<open>z\<close> the resolver raises instead: \<open>int("z")\<close>
  is a \<open>ValueError\<close>, and the handler that would warn and drop catches \<open>KeyError\<close> only.
\<close>

theorem organize_cols_unknown_name_raises:
  "organize_cols (Some sample_frame) None (Some [''b'', ''z'']) True = Inl ValueError"
  by (simp add: organize_cols_def resolve_cols_def select_cols_def check_col_def sample_frame_def py_int_z)

text \<open>An index out of range is not caught either: it is an \<open>IndexError\<close>.\<close>

lemma organize_cols_index_out_of_range:
  "organize_cols (Some sample_frame) None (Some [''b'', ''7'']) True = Inl IndexError"
  by (simp add: organize_cols_def resolve_cols_def select_cols_def check_col_def sample_frame_def
      py_int_7 getitem_def)

text \<open>
  Claim C3 says that x selectors whose count differs from the y selectors' are discarded
  on every call, also with warnings disabled, and that the call never raises. With
  \<open>warn = False\<close>, x selectors \<open>a\<close>, \<open>c\<close> and the y selector \<open>b\<close>, the x selectors are
  kept, and the assertion \<open>len(x_cols) <= len(y_cols)\<close> of the source fails.
\<close>

theorem organize_cols_mismatch_silent:
  "organize_cols (Some sample_frame) (Some [''a'', ''c'']) (Some [''b'']) False = Inl AssertionError"
  by (simp add: organize_cols_def resolve_cols_def select_cols_def check_col_def sample_frame_def)

text \<open>With \<open>warn = True\<close> the same selectors are discarded and the two warnings printed.\<close>

lemma organize_cols_mismatch_warned:
  "\<exists>d'. organize_cols (Some sample_frame) (Some [''a'', ''c'']) (Some [''b'']) True
     = Inr ((d', [(''_index'', ''b'')]),
        [''Warning: Number of x-cols must match the number of y-cols.'', ''Warning: Ignoring x-cols.''])"
  by (simp add: organize_cols_def resolve_cols_def select_cols_def check_col_def sample_frame_def
      zip_cycle_def reset_index_def)

section \<open>Properties of the streaming loop\<close>

lemma stream_cycle_sentinel:
  "read_data fs parse (path_to_logs cfg) (max_samples cfg) = Inr None
   \<Longrightarrow> stream_cycle fs parse cfg fig = Inl AttributeError"
  by (simp add: stream_cycle_def organize_cols_None)

text \<open>
  Claim C1 says that a pass of the streaming loop whose read yields the no-data sentinel
  completes without an exception and leaves the plot unchanged. With the log file
  empty the read yields the sentinel, and the pass raises \<open>AttributeError\<close>:
  \<open>organize_cols\<close> reads \<open>data.columns\<close> of the sentinel before \<open>plot_update\<close>, which
  would have returned at once on it, is reached.
\<close>

theorem stream_cycle_empty_log:
  "stream_cycle (Map.empty(path_to_logs cfg \<mapsto> [])) parse cfg fig = Inl AttributeError"
  by (simp add: stream_cycle_def read_data_def read_csv_def organize_cols_None)

section \<open>Properties of the log reader\<close>

text \<open>
  Claim C4, as amended. For a path at which no file exists \<open>read_data\<close> raises
  \<open>FileNotFoundError\<close>; the sentinel is the result for a file of zero bytes and for a
  file whose parse has a header and no rows.
\<close>

theorem read_data_missing_file:
  "(fs p = None \<longrightarrow> read_data fs parse p n = Inl FileNotFoundError)
   \<and> (fs p = Some [] \<longrightarrow> read_data fs parse p n = Inr None)
   \<and> (fs p = Some content \<and> content \<noteq> [] \<and> parse content = Inr d \<and> rows d = []
        \<longrightarrow> read_data fs parse p n = Inr None)"
  by (simp add: read_data_def read_csv_def rename_strip_def)

text \<open>The three cases on an empty file system, an empty file and a header-only file.\<close>

theorem read_data_missing_file_witness:
  "read_data Map.empty plain_csv ''log.txt'' 100 = Inl FileNotFoundError
   \<and> read_data (Map.empty(''log.txt'' \<mapsto> [])) plain_csv ''log.txt'' 100 = Inr None
   \<and> read_data (Map.empty(''log.txt'' \<mapsto> header_only_log)) plain_csv ''log.txt'' 100 = Inr None"
  using read_data_missing_file [of Map.empty "''log.txt''" plain_csv 100]
    read_data_missing_file [of "Map.empty(''log.txt'' \<mapsto> [])" "''log.txt''" plain_csv 100]
    read_data_missing_file [where fs = "Map.empty(''log.txt'' \<mapsto> header_only_log)"
       and p = "''log.txt''" and content = header_only_log and parse = plain_csv
       and d = "\<lparr>columns = [''a'', ''b''], index = [], rows = []\<rparr>" and n = 100]
    plain_csv_header_only header_only_log_nonempty
  by simp

text \<open>
  Claim C4 as stated fails: with no file at the default path the result is the
  exception, not the sentinel.
\<close>

theorem read_data_missing_file_cex:
  "read_data Map.empty plain_csv ''logging/log.txt'' 100 = Inl FileNotFoundError"
  by (simp add: read_data_def read_csv_def)




section \<open>Properties of the renderer's update step\<close>

lemma getcol_index: "getcol tall_frame ''_index'' = Inr (Series [Num 0, Num 1])"
  by (simp add: getcol_def tall_frame_def upt_conv_Cons)

lemma getcol_v: "getcol tall_frame ''v'' = Inr (Series [Num 0, Num 100])"
  by (simp add: getcol_def tall_frame_def upt_conv_Cons)

lemma tall_series:
  "update_series tall_frame [(''_index'', ''v'')] (handles tall_figure, empty_bounds)
   = Inr ([(''v'', \<lparr>xdata = [0, 1], ydata = [0, 100]\<rparr>),
           (''v_point'', \<lparr>xdata = [1], ydata = [100]\<rparr>)],
          \<lparr>x_min = Fin 0, x_max = Fin 1, y_min = Fin 0, y_max = Fin 100\<rparr>)"
  by (simp add: getcol_index getcol_v get_label_def is_object_def nums_def tall_figure_def
      set_data_def blank_artist_def empty_bounds_def py_min_def py_max_def col_min_def col_max_def)

lemma tall_rescale:
  "rescale_limits (1 / 20) \<lparr>x_min = Fin 0, x_max = Fin 1, y_min = Fin 0, y_max = Fin 100\<rparr>
     ((- 1 / 20, 21 / 20), (- 15, 115)) = ((- 1 / 20, 21 / 20), (- 6, 106))"
  by (simp add: rescale_limits_def rescale_axis_def out_of_band_def)

lemma tall_own_span:
  "rescale_axis (1 / 20) (Fin 0) (Fin 100) (Fin 100) (- 15, 115) = (- 15, 115)"
  by (simp add: rescale_axis_def out_of_band_def)

text \<open>
  Claim C5 says that each axis is rescaled only when the discrepancy between its
  current and target limits, divided by that axis's own data span, leaves the band from
  0 to 0.2, and that it then moves 90 percent of the way. In the y block of the source
  the divisor is \<open>dx\<close>, the span of the x data. Here the y data span 100 and the y
  limits lie 10 outside their targets, a tenth of the y span, so by the claim they stay
  (as \<open>tall_own_span\<close> computes); divided by the x span 1 the discrepancy is 10, and the
  y limits move from \<open>(-15, 115)\<close> to \<open>(-6, 106)\<close>.
\<close>

theorem plot_update_y_by_x_span:
  "plot_update tall_figure (Some tall_frame) [(''_index'', ''v'')] default_configs
   = Inr \<lparr>xlim = (- 0.05, 1.05), ylim = (- 6, 106),
          handles = [(''v'', \<lparr>xdata = [0, 1], ydata = [0, 100]\<rparr>),
                     (''v_point'', \<lparr>xdata = [1], ydata = [100]\<rparr>)]\<rparr>"
proof -
  have l: "lim_margin default_configs = 1 / 20" "xlim tall_figure = (- 1 / 20, 21 / 20)"
    "ylim tall_figure = (- 15, 115)"
    by (simp_all add: default_configs_def tall_figure_def)
  show ?thesis
    unfolding plot_update_def option.case tall_series l sum.case prod.case Let_def tall_rescale
    by (simp add: tall_figure_def)
qed

section \<open>Properties of the signal source\<close>

lemma header_line_fields:
  "map py_strip (split_on CHR '','' header_line) = [''x(t)'', ''y(t)'', ''x_s(t)'', ''y_s(t)'']"
  by (simp add: header_line_def py_strip_def py_isspace_def)

lemma show_nat_0: "show_nat 0 = ''0''"
  by (simp add: digit_char_def)

lemma show_nat_1: "show_nat 1 = ''1''"
  by (simp add: digit_char_def)

lemma show_nat_500000: "show_nat 500000 = ''500000''"
  by (simp add: digit_char_def)

lemma show_nat_500: "show_nat 500 = ''500''"
  by (simp add: digit_char_def)

lemma round_three_halves_6: "round_half_even (\<bar>3 / 2\<bar> * 10 ^ 6) = 1500000"
  by (simp add: round_half_even_def)

lemma round_three_halves_3: "round_half_even (\<bar>3 / 2\<bar> * 10 ^ 3) = 1500"
  by (simp add: round_half_even_def)

lemma round_zero_3: "round_half_even (\<bar>0\<bar> * 10 ^ 3) = 0"
  by (simp add: round_half_even_def)

lemma format_f_width_only: "format_f (Some 3) None (3 / 2) = ''1.500000''"
proof -
  have d: "(1500000::nat) div 10 ^ 6 = 1" "(1500000::nat) mod 10 ^ 6 = 500000" by simp_all
  show ?thesis
    unfolding format_f_def Let_def
    by (simp only: round_three_halves_6 option.case nat_numeral d show_nat_1 show_nat_500000) simp
qed

lemma format_f_three_halves: "format_f None (Some 3) (3 / 2) = ''1.500''"
proof -
  have d: "(1500::nat) div 10 ^ 3 = 1" "(1500::nat) mod 10 ^ 3 = 500" by simp_all
  show ?thesis
    unfolding format_f_def Let_def
    by (simp only: round_three_halves_3 option.case nat_numeral d show_nat_1 show_nat_500) simp
qed

lemma format_f_zero: "format_f None (Some 3) 0 = ''0.000''"
proof -
  have d: "(0::nat) div 10 ^ 3 = 0" "(0::nat) mod 10 ^ 3 = 0" by simp_all
  show ?thesis
    unfolding format_f_def Let_def
    by (simp only: round_zero_3 option.case nat_0 d show_nat_0) (simp add: numeral_2_eq_2)
qed

lemma parse_line_format: "parse_format line_format = Some
  [Conv (Some 3) None CHR ''f'', Lit CHR '','',
   Conv None (Some 3) CHR ''f'', Lit CHR '','',
   Conv None (Some 3) CHR ''f'', Lit CHR '','',
   Conv None (Some 3) CHR ''f'']"
  by (simp add: parse_format_def line_format_def is_digit_def digit_val_def)

lemma line_first_tick: "py_format line_format [3 / 2, 0, 3 / 2, 0] = Inr ''1.500000,0.000,1.500,0.000''"
  unfolding py_format_def parse_line_format
  by (simp only: option.case render.simps format_f_width_only format_f_three_halves format_f_zero sum.case if_True refl) simp

text \<open>
  Claim C6 says that a data line is the four values, each formatted with \<open>%.3f\<close>. The
  format string of the source begins with \<open>%3f\<close>, a width and no precision, so the
  first value is printed with six decimals: the sample \<open>(1.5, 0)\<close> at the first tick
  gives the line below, where the claim has \<open>1.500,0.000,1.500,0.000\<close>.
\<close>

theorem tick_first_field:
  "tick (3 / 2, 0) (None, None) = Inr (''1.500000,0.000,1.500,0.000'', (Some (3 / 2), Some 0))"
  unfolding tick_def Let_def fst_conv snd_conv smooth_def option.case line_first_tick
  by simp


end
